theory Spec2Isabelle
  imports Complex_Main
begin

section \<open>Python strings\<close>

text \<open>
  Python \<open>str\<close> values are modelled as \<open>string\<close>.  The three string methods the
  client uses are \<open>startswith\<close>, \<open>lstrip(chars)\<close> and \<open>rstrip(chars)\<close>; the two
  strip methods remove every leading (trailing) character that occurs in \<open>chars\<close>.
\<close>

definition startswith :: "string \<Rightarrow> string \<Rightarrow> bool" where
  "startswith s p \<longleftrightarrow> take (length p) s = p"

definition lstrip :: "string \<Rightarrow> string \<Rightarrow> string" where
  "lstrip s chars = dropWhile (\<lambda>c. c \<in> set chars) s"

definition rstrip :: "string \<Rightarrow> string \<Rightarrow> string" where
  "rstrip s chars = rev (dropWhile (\<lambda>c. c \<in> set chars) (rev s))"

definition endswith :: "string \<Rightarrow> string \<Rightarrow> bool" where
  "endswith s p \<longleftrightarrow> startswith (rev s) (rev p)"

text \<open>
  \<open>str.lower()\<close> and \<open>str.upper()\<close>, on the ASCII letters (characters here are bytes;
  the header names and HTTP methods the client handles are ASCII).
\<close>

definition lower_char :: "char \<Rightarrow> char" where
  "lower_char c =
     (case map_of (zip ''ABCDEFGHIJKLMNOPQRSTUVWXYZ'' ''abcdefghijklmnopqrstuvwxyz'') c of
        Some d \<Rightarrow> d | None \<Rightarrow> c)"

definition upper_char :: "char \<Rightarrow> char" where
  "upper_char c =
     (case map_of (zip ''abcdefghijklmnopqrstuvwxyz'' ''ABCDEFGHIJKLMNOPQRSTUVWXYZ'') c of
        Some d \<Rightarrow> d | None \<Rightarrow> c)"

definition lower :: "string \<Rightarrow> string" where
  "lower s = map lower_char s"

definition upper :: "string \<Rightarrow> string" where
  "upper s = map upper_char s"

text \<open>\<open>sep.join(xs)\<close>.\<close>

fun join :: "string \<Rightarrow> string list \<Rightarrow> string" where
  "join sep [] = []"
| "join sep [x] = x"
| "join sep (x # y # ys) = x @ sep @ join sep (y # ys)"

section \<open>Python values and dictionaries\<close>

text \<open>
  The values that travel through the client: request bodies, query parameters, extra
  keyword options and decoded JSON.  Floats are left out.
\<close>

datatype pyval =
    PNone
  | PBool bool
  | PInt int
  | PStr string
  | PList "pyval list"
  | PDict "(string \<times> pyval) list"

text \<open>\<open>str(n)\<close> for an integer: its decimal digits, with a minus sign when negative.\<close>

fun str_nat :: "nat \<Rightarrow> string" where
  "str_nat n =
     (if n < 10 then [''0123456789'' ! n]
      else str_nat (n div 10) @ [''0123456789'' ! (n mod 10)])"

definition str_int :: "int \<Rightarrow> string" where
  "str_int i = (if i < 0 then CHR ''-'' # str_nat (nat (- i)) else str_nat (nat i))"

text \<open>
  \<open>str(v)\<close>.  The client applies it only to values that are neither \<open>dict\<close> nor
  \<open>list\<close>, so the text form of containers is not given.
\<close>

fun str :: "pyval \<Rightarrow> string" where
  "str (PStr s) = s"
| "str (PInt i) = str_int i"
| "str (PBool b) = (if b then ''True'' else ''False'')"
| "str PNone = ''None''"

text \<open>
  A \<open>dict\<close> is the list of its items in insertion order.  \<open>d[k] = v\<close> replaces the value
  of an existing key in place and appends a new key; \<open>d.update(e)\<close> and the literal
  \<open>{**d, **e}\<close> store the items of \<open>e\<close> one after the other.
\<close>

fun dict_set :: "('k \<times> 'v) list \<Rightarrow> 'k \<Rightarrow> 'v \<Rightarrow> ('k \<times> 'v) list" where
  "dict_set [] k v = [(k, v)]"
| "dict_set ((k', v') # d) k v = (if k' = k then (k, v) # d else (k', v') # dict_set d k v)"

definition dict_update :: "('k \<times> 'v) list \<Rightarrow> ('k \<times> 'v) list \<Rightarrow> ('k \<times> 'v) list" where
  "dict_update d e = foldl (\<lambda>acc (k, v). dict_set acc k v) d e"

section \<open>The HTTP library: headers, responses, exceptions\<close>

text \<open>
  \<open>httpx.Headers\<close> is a list of (name, value) items whose names compare without regard
  to case.  \<open>get(key, dflt)\<close> joins the values of all matching items with \<open>", "\<close>;
  \<open>h[key] = value\<close> overwrites the first matching item, deletes the other matching
  items, and appends when there is none; \<open>update(new)\<close> removes every item whose name
  occurs in \<open>new\<close> and appends the items of \<open>new\<close>; \<open>dict(h)\<close> has one entry per
  lower-cased name, in the order of the first occurrences.
\<close>

type_synonym httpx_headers = "(string \<times> string) list"

definition headers_get :: "httpx_headers \<Rightarrow> string \<Rightarrow> string \<Rightarrow> string" where
  "headers_get hs key dflt =
     (case map snd (filter (\<lambda>(k, v). lower k = lower key) hs) of
        [] \<Rightarrow> dflt
      | vs \<Rightarrow> join '', '' vs)"

fun headers_setitem :: "httpx_headers \<Rightarrow> string \<Rightarrow> string \<Rightarrow> httpx_headers" where
  "headers_setitem [] key val = [(key, val)]"
| "headers_setitem ((k, v) # hs) key val =
     (if lower k = lower key
      then (key, val) # filter (\<lambda>(k', v'). lower k' \<noteq> lower key) hs
      else (k, v) # headers_setitem hs key val)"


definition headers_dict :: "httpx_headers \<Rightarrow> (string \<times> string) list" where
  "headers_dict hs =
     map (\<lambda>k. (k, headers_get hs k [])) (rev (remdups (rev (map (lower \<circ> fst) hs))))"

text \<open>
  What can be raised while a request runs: the exception classes of the HTTP library, any
  other subclass of \<open>Exception\<close> by its class name, the retry library's \<open>RetryError\<close>,
  which holds the exception of the last attempt, and the two subclasses of
  \<open>BaseException\<close> that are not subclasses of \<open>Exception\<close> and reach a coroutine while
  it awaits: \<open>asyncio.CancelledError\<close> and \<open>KeyboardInterrupt\<close>.
\<close>

datatype exn =
    ConnectTimeout | ReadTimeout | WriteTimeout | PoolTimeout
  | ConnectError | ReadError | WriteError | CloseError
  | LocalProtocolError | RemoteProtocolError
  | ProxyError
  | UnsupportedProtocol
  | DecodingError
  | TooManyRedirects
  | HTTPStatusError
  | InvalidURL
  | CookieConflict
  | StreamError
  | OtherException string
  | RetryError exn
  | CancelledError
  | KeyboardInterrupt

text \<open>\<open>isinstance(e, Exception)\<close>.\<close>

definition is_Exception :: "exn \<Rightarrow> bool" where
  "is_Exception e \<longleftrightarrow> e \<notin> {CancelledError, KeyboardInterrupt}"

text \<open>
  \<open>isinstance(e, httpx.TimeoutException)\<close>, \<open>isinstance(e, httpx.NetworkError)\<close>,
  \<open>isinstance(e, httpx.TransportError)\<close>, \<open>isinstance(e, httpx.RequestError)\<close> and
  \<open>isinstance(e, httpx.ReadTimeout)\<close>, after the library's class hierarchy:
  \<open>RequestError\<close> is the base of \<open>TransportError\<close>, \<open>DecodingError\<close> and
  \<open>TooManyRedirects\<close>; \<open>TransportError\<close> is the base of \<open>TimeoutException\<close>,
  \<open>NetworkError\<close>, \<open>ProtocolError\<close>, \<open>ProxyError\<close> and \<open>UnsupportedProtocol\<close>.
\<close>

definition is_TimeoutException :: "exn \<Rightarrow> bool" where
  "is_TimeoutException e \<longleftrightarrow> e \<in> {ConnectTimeout, ReadTimeout, WriteTimeout, PoolTimeout}"

definition is_NetworkError :: "exn \<Rightarrow> bool" where
  "is_NetworkError e \<longleftrightarrow> e \<in> {ConnectError, ReadError, WriteError, CloseError}"

definition is_TransportError :: "exn \<Rightarrow> bool" where
  "is_TransportError e \<longleftrightarrow>
     is_TimeoutException e \<or> is_NetworkError e
     \<or> e \<in> {LocalProtocolError, RemoteProtocolError, ProxyError, UnsupportedProtocol}"

definition is_RequestError :: "exn \<Rightarrow> bool" where
  "is_RequestError e \<longleftrightarrow> is_TransportError e \<or> e \<in> {DecodingError, TooManyRedirects}"

definition is_ReadTimeout :: "exn \<Rightarrow> bool" where
  "is_ReadTimeout e \<longleftrightarrow> e = ReadTimeout"

text \<open>
  A response, as far as the client reads it: \<open>status_code\<close>, \<open>headers\<close>, \<open>text\<close>, and
  what calling \<open>json()\<close> does (the decoded value, or the exception it raises).
  \<open>json()\<close> decodes a body that is already in memory and awaits nothing, so what it
  raises is an instance of \<open>Exception\<close>.  \<open>is_success\<close> is the library's test for a 2xx
  status.
\<close>

datatype json_error = JSONDecodeError | UnicodeDecodeError | OtherJsonError string

record response =
  status_code :: int
  resp_headers :: httpx_headers
  resp_text :: string
  resp_json :: "json_error + pyval"

definition is_success :: "response \<Rightarrow> bool" where
  "is_success r \<longleftrightarrow> 200 \<le> status_code r \<and> status_code r \<le> 299"

section \<open>The client object\<close>

text \<open>
  \<open>APIClient\<close> has two pieces of mutable state: \<open>self.base_url\<close> and the headers of
  the session \<open>self.client\<close> (an \<open>httpx.AsyncClient\<close>).  The entries the HTTP library adds
  to a session by itself (\<open>Accept-Encoding\<close>, \<open>Connection\<close>) are not listed.
\<close>

record api_client =
  base_url :: string
  client_headers :: httpx_headers

text \<open>\<open>__init__(base_url, default_headers)\<close>; an absent \<open>default_headers\<close> is \<open>None\<close>.\<close>

definition init :: "string \<Rightarrow> (string \<times> string) list option \<Rightarrow> api_client" where
  "init base default_headers =
     (let hdrs = [(''Content-Type'', ''application/json''),
                  (''Accept'', ''application/json''),
                  (''User-Agent'', ''API-Test-Client/1.0'')]
      in \<lparr>base_url = (if base \<noteq> [] then rstrip base ''/'' else []),
          client_headers =
            (case default_headers of
               None \<Rightarrow> hdrs
             | Some d \<Rightarrow> if d \<noteq> [] then dict_update hdrs d else hdrs)\<rparr>)"

definition set_auth_token :: "api_client \<Rightarrow> string \<Rightarrow> api_client" where
  "set_auth_token self token =
     self\<lparr>client_headers := headers_setitem (client_headers self) ''Authorization''
                               (''Bearer '' @ token)\<rparr>"

definition set_base_url :: "api_client \<Rightarrow> string \<Rightarrow> api_client" where
  "set_base_url self url = self\<lparr>base_url := rstrip url ''/''\<rparr>"

text \<open>
  \<open>_build_url\<close>: an endpoint with a scheme prefix is returned as it is; otherwise it is
  joined to a non-empty base URL; otherwise it is returned as it is.
\<close>

definition build_url :: "api_client \<Rightarrow> string \<Rightarrow> string" where
  "build_url self endpoint =
     (if startswith endpoint ''http://'' \<or> startswith endpoint ''https://'' then endpoint
      else if base_url self \<noteq> [] then base_url self @ ''/'' @ lstrip endpoint ''/''
      else endpoint)"

section \<open>One request\<close>

text \<open>
  The keyword arguments handed to the session's \<open>request\<close>: a \<open>dict\<close> whose values are
  the query parameters, the timeout in seconds, the per-call headers, a JSON body, a raw
  body, or an extra option of the caller passed through as it is.
\<close>

datatype kwarg =
    Params pyval
  | Timeout rat
  | Headers httpx_headers
  | Json pyval
  | Content string
  | Extra pyval

type_synonym kwargs = "(string \<times> kwarg) list"

text \<open>
  \<open>request_kwargs\<close> as \<open>request\<close> builds it from its arguments \<open>data\<close>, \<open>params\<close>,
  \<open>headers\<close>, \<open>timeout\<close> and \<open>**kwargs\<close>.  \<open>None\<close> is \<open>PNone\<close> for \<open>data\<close> and
  \<open>params\<close>, and \<open>None\<close> for \<open>headers\<close>.
\<close>

definition request_kwargs ::
  "pyval \<Rightarrow> pyval \<Rightarrow> httpx_headers option \<Rightarrow> rat \<Rightarrow> (string \<times> pyval) list \<Rightarrow> kwargs" where
  "request_kwargs data_arg params headers_arg timeout kwargs =
     (let kw0 = dict_update [(''params'', Params params), (''timeout'', Timeout timeout)]
                  (map (\<lambda>(k, v). (k, Extra v)) kwargs);
          kw1 = (case headers_arg of
                   None \<Rightarrow> kw0
                 | Some h \<Rightarrow> if h \<noteq> [] then dict_set kw0 ''headers'' (Headers h) else kw0)
      in case data_arg of
           PNone \<Rightarrow> kw1
         | PDict d \<Rightarrow> dict_set kw1 ''json'' (Json data_arg)
         | PList l \<Rightarrow> dict_set kw1 ''json'' (Json data_arg)
         | _ \<Rightarrow> dict_set kw1 ''content'' (Content (str data_arg)))"

text \<open>
  A call of \<open>self.client.request(method=..., url=..., **request_kwargs)\<close>, together with
  the headers the session holds at that moment.
\<close>

record transport_call =
  call_method :: string
  call_url :: string
  call_kwargs :: kwargs
  session_headers :: httpx_headers




text \<open>
  What a request leaves behind, in order: the log records, the calls of the session and
  the pauses of the retry loop (in seconds), each taken to run to its end.
\<close>

datatype event =
    Debug_making_request string string rat
  | Call transport_call
  | Debug_received_response string string int
  | Error_request_failed string string exn
  | Sleep nat

fun calls :: "event list \<Rightarrow> transport_call list" where
  "calls [] = []"
| "calls (Call c # evs) = c # calls evs"
| "calls (_ # evs) = calls evs"

fun sleeps :: "event list \<Rightarrow> nat list" where
  "sleeps [] = []"
| "sleeps (Sleep n # evs) = n # sleeps evs"
| "sleeps (_ # evs) = sleeps evs"

fun logged_errors :: "event list \<Rightarrow> exn list" where
  "logged_errors [] = []"
| "logged_errors (Error_request_failed u m e # evs) = e # logged_errors evs"
| "logged_errors (_ # evs) = logged_errors evs"

definition attempts :: "event list \<Rightarrow> nat" where
  "attempts evs = length (calls evs)"

text \<open>
  The result \<open>dict\<close> of \<open>request\<close>, with its keys as fields.  The key \<open>elapsed\<close>, a
  difference of two wall-clock readings, is left out.
\<close>

record result =
  status :: int
  ok :: bool
  headers :: "(string \<times> string) list"
  data :: pyval
  "text" :: string
  response :: response

text \<open>
  The inner \<open>try\<close> of \<open>request\<close>: the value stored under \<open>data\<close>.  The exception
  \<open>json()\<close> raises is caught by \<open>except Exception\<close> and the text is taken instead.
\<close>

definition response_data :: "response \<Rightarrow> pyval" where
  "response_data r =
     (let ct = headers_get (resp_headers r) ''content-type'' []
      in if startswith ct ''application/json''
         then (case resp_json r of Inr v \<Rightarrow> v | Inl e \<Rightarrow> PStr (resp_text r))
         else PStr (resp_text r))"

text \<open>
  The body of \<open>request\<close>, run once.  \<open>send\<close> is the session's \<open>request\<close> at this attempt:
  it returns a response or raises.  The outer \<open>except Exception\<close> logs an instance of
  \<open>Exception\<close> and raises it again; anything else passes through it unlogged.
\<close>

definition request_body ::
  "api_client \<Rightarrow> (transport_call \<Rightarrow> exn + response) \<Rightarrow> string \<Rightarrow> string \<Rightarrow> pyval \<Rightarrow> pyval
     \<Rightarrow> httpx_headers option \<Rightarrow> rat \<Rightarrow> (string \<times> pyval) list \<Rightarrow> (exn + result) \<times> event list" where
  "request_body self send method endpoint data_arg params headers_arg timeout kwargs =
     (let url = build_url self endpoint;
          c = \<lparr>call_method = upper method, call_url = url,
               call_kwargs = request_kwargs data_arg params headers_arg timeout kwargs,
               session_headers = client_headers self\<rparr>;
          evs = [Debug_making_request method url timeout, Call c]
      in case send c of
           Inr r \<Rightarrow>
             (Inr \<lparr>status = status_code r, ok = is_success r,
                   headers = headers_dict (resp_headers r), data = response_data r,
                   text = resp_text r, response = r\<rparr>,
              evs @ [Debug_received_response method url (status_code r)])
         | Inl e \<Rightarrow>
             (Inl e, evs @ (if is_Exception e then [Error_request_failed url method e] else [])))"

section \<open>The retry decorator\<close>

text \<open>
  The retry library's policies.  \<open>stop_after_attempt(n)\<close> stops once the attempt number
  has reached \<open>n\<close>.  \<open>wait_exponential(multiplier, min, max)\<close> waits, after attempt
  number \<open>k\<close> (counted from 1), \<open>multiplier * 2 ** (k - 1)\<close> seconds, capped at \<open>max\<close>
  and raised to \<open>min\<close>.  \<open>retry_if_exception_type(types)\<close> retries when the exception
  is an instance of one of the types.
\<close>

definition stop_after_attempt :: "nat \<Rightarrow> nat \<Rightarrow> bool" where
  "stop_after_attempt max_attempt_number attempt_number \<longleftrightarrow>
     attempt_number \<ge> max_attempt_number"

definition wait_exponential :: "nat \<Rightarrow> nat \<Rightarrow> nat \<Rightarrow> nat \<Rightarrow> nat" where
  "wait_exponential multiplier min_wait max_wait attempt_number =
     max (max 0 min_wait) (min (multiplier * 2 ^ (attempt_number - 1)) max_wait)"

definition retry_if_exception_type :: "(exn \<Rightarrow> bool) list \<Rightarrow> exn \<Rightarrow> bool" where
  "retry_if_exception_type types e \<longleftrightarrow> (\<exists>t \<in> set types. t e)"

text \<open>
  The loop of the \<open>retry\<close> decorator around a function \<open>fn\<close>, called with the attempt
  number.  A result is returned.  Whatever \<open>fn\<close> raises is caught (the loop catches
  \<open>BaseException\<close>); when the policy does not retry it, it is raised as it is.  When
  the stop condition holds, \<open>RetryError\<close> is raised (the decorator is used without
  \<open>reraise\<close>).  Otherwise the loop sleeps and calls \<open>fn\<close> again.
\<close>

function retry ::
  "nat \<Rightarrow> (nat \<Rightarrow> nat) \<Rightarrow> (exn \<Rightarrow> bool) \<Rightarrow> (nat \<Rightarrow> (exn + 'a) \<times> event list) \<Rightarrow> nat
     \<Rightarrow> (exn + 'a) \<times> event list" where
  "retry max_attempt wait retry_on fn attempt_number =
     (case fn attempt_number of
        (Inr v, evs) \<Rightarrow> (Inr v, evs)
      | (Inl e, evs) \<Rightarrow>
          if \<not> retry_on e then (Inl e, evs)
          else if stop_after_attempt max_attempt attempt_number then (Inl (RetryError e), evs)
          else (case retry max_attempt wait retry_on fn (attempt_number + 1) of
                  (res, evs') \<Rightarrow> (res, evs @ [Sleep (wait attempt_number)] @ evs')))"
  by pat_completeness auto
termination
  by (relation "measure (\<lambda>(max_attempt, wait, retry_on, fn, attempt_number).
                  max_attempt - attempt_number)")
     (auto simp: stop_after_attempt_def)

declare retry.simps [simp del]

section \<open>The public operations\<close>

text \<open>
  The session's behaviour is a parameter: \<open>transport k c\<close> is what the \<open>k\<close>-th attempt
  of a request (counted from 1) gets for the call \<open>c\<close>.
\<close>

type_synonym transport = "nat \<Rightarrow> transport_call \<Rightarrow> exn + response"

definition request ::
  "api_client \<Rightarrow> transport \<Rightarrow> string \<Rightarrow> string \<Rightarrow> pyval \<Rightarrow> pyval
     \<Rightarrow> httpx_headers option \<Rightarrow> rat \<Rightarrow> (string \<times> pyval) list \<Rightarrow> (exn + result) \<times> event list" where
  "request self transport method endpoint data_arg params headers_arg timeout kwargs =
     retry 3 (wait_exponential 1 2 10)
       (retry_if_exception_type [is_RequestError, is_ReadTimeout])
       (\<lambda>k. request_body self (transport k) method endpoint data_arg params headers_arg
               timeout kwargs)
       1"

text \<open>
  \<open>get\<close> forwards to \<open>request\<close>; the keyword arguments it forwards are listed in the
  order of \<open>request\<close>'s parameters.
\<close>

definition get ::
  "api_client \<Rightarrow> transport \<Rightarrow> string \<Rightarrow> pyval \<Rightarrow> pyval
     \<Rightarrow> httpx_headers option \<Rightarrow> rat \<Rightarrow> (string \<times> pyval) list \<Rightarrow> (exn + result) \<times> event list" where
  "get self transport endpoint data_arg params headers_arg timeout kwargs =
     request self transport ''GET'' endpoint data_arg params headers_arg timeout kwargs"

text \<open>
  \<open>health_check\<close> returns a truth value or raises: its \<open>except Exception\<close> turns an
  instance of \<open>Exception\<close> into \<open>False\<close> and lets anything else through.
\<close>

definition health_check :: "api_client \<Rightarrow> transport \<Rightarrow> (exn + bool) \<times> event list" where
  "health_check self transport =
     (case get self transport ''health'' PNone PNone None 5 [] of
        (Inr res, evs) \<Rightarrow> (Inr (status res = 200), evs)
      | (Inl e, evs) \<Rightarrow> (if is_Exception e then Inr False else Inl e, evs))"

text \<open>A client's life: construction, then setter calls.\<close>

datatype client_op = Set_base_url string | Set_auth_token string

fun apply_op :: "api_client \<Rightarrow> client_op \<Rightarrow> api_client" where
  "apply_op self (Set_base_url u) = set_base_url self u"
| "apply_op self (Set_auth_token t) = set_auth_token self t"

section \<open>Notions used in the statements\<close>

text \<open>
  The call that \<open>request\<close> hands to the session, the result it builds from a response,
  and the events of one attempt that got a response or an exception: the parts of
  \<open>request_body\<close>, named.
\<close>

definition call_of ::
  "api_client \<Rightarrow> string \<Rightarrow> string \<Rightarrow> pyval \<Rightarrow> pyval \<Rightarrow> httpx_headers option \<Rightarrow> rat
     \<Rightarrow> (string \<times> pyval) list \<Rightarrow> transport_call" where
  "call_of self method endpoint data_arg params headers_arg timeout kwargs =
     \<lparr>call_method = upper method, call_url = build_url self endpoint,
      call_kwargs = request_kwargs data_arg params headers_arg timeout kwargs,
      session_headers = client_headers self\<rparr>"

definition result_of :: "response \<Rightarrow> result" where
  "result_of r =
     \<lparr>status = status_code r, ok = is_success r, headers = headers_dict (resp_headers r),
      data = response_data r, text = resp_text r, response = r\<rparr>"

definition returned :: "string \<Rightarrow> string \<Rightarrow> rat \<Rightarrow> transport_call \<Rightarrow> response \<Rightarrow> event list" where
  "returned method url timeout c r =
     [Debug_making_request method url timeout, Call c,
      Debug_received_response method url (status_code r)]"

definition raised :: "string \<Rightarrow> string \<Rightarrow> rat \<Rightarrow> transport_call \<Rightarrow> exn \<Rightarrow> event list" where
  "raised method url timeout c e =
     [Debug_making_request method url timeout, Call c]
       @ (if is_Exception e then [Error_request_failed url method e] else [])"

text \<open>Example inputs: a client, a response, and three behaviours of the session.\<close>

definition demo_client :: api_client where
  "demo_client = init ''https://api.staging.example.com/'' None"

definition demo_response :: response where
  "demo_response =
     \<lparr>status_code = 200,
      resp_headers = [(''Content-Type'', ''application/json; charset=utf-8'')],
      resp_text = ''[1, 2]'',
      resp_json = Inr (PList [PInt 1, PInt 2])\<rparr>"

definition flaky_transport :: transport where
  "flaky_transport k c = (if k < 3 then Inl ConnectError else Inr demo_response)"

definition failing_transport :: "exn \<Rightarrow> transport" where
  "failing_transport e k c = Inl e"

definition steady_transport :: "response \<Rightarrow> transport" where
  "steady_transport r k c = Inr r"


section \<open>String lemmas\<close>

lemma lstrip_replicate:
  "lstrip (replicate n CHR ''/'' @ e) ''/'' = lstrip e ''/''"
  by (induction n) (simp_all add: lstrip_def)

lemma rstrip_replicate:
  "rstrip (b @ replicate n CHR ''/'') ''/'' = rstrip b ''/''"
proof -
  have "dropWhile (\<lambda>c. c \<in> set ''/'') (replicate n CHR ''/'' @ xs)
          = dropWhile (\<lambda>c. c \<in> set ''/'') xs" for xs
    by (induction n) simp_all
  then show ?thesis
    by (simp add: rstrip_def)
qed

lemma relative_with_slashes:
  assumes "\<not> (startswith e ''http://'' \<or> startswith e ''https://'')"
  shows "\<not> (startswith (replicate m CHR ''/'' @ e) ''http://''
            \<or> startswith (replicate m CHR ''/'' @ e) ''https://'')"
proof (cases m)
  case 0
  with assms show ?thesis by simp
next
  case (Suc k)
  then show ?thesis by (simp add: startswith_def)
qed

section \<open>URL building\<close>

text \<open>
  Claim C4.  An endpoint that starts with \<open>http://\<close> or \<open>https://\<close> is returned unchanged
  whatever the base URL is.  Any other endpoint is joined to a configured (non-empty) base
  URL \<open>B\<close> as \<open>B + "/" + E\<close>, where \<open>E\<close> is the endpoint without its leading slashes;
  with a base URL given at construction or through \<open>set_base_url\<close>, \<open>B\<close> is that URL
  without its trailing slashes, and adding trailing slashes to the base or leading
  slashes to the endpoint does not change the result.  With no base URL the endpoint is
  returned unchanged.
\<close>

theorem build_url_spec:
  fixes self :: api_client and e :: string
  defines "absolute \<equiv> startswith e ''http://'' \<or> startswith e ''https://''"
  shows "(absolute \<longrightarrow> build_url self e = e)
       \<and> (\<not> absolute \<and> base_url self \<noteq> [] \<longrightarrow>
            build_url self e = base_url self @ ''/'' @ lstrip e ''/'')
       \<and> (\<not> absolute \<and> rstrip b ''/'' \<noteq> [] \<longrightarrow>
            build_url (set_base_url self b) e = rstrip b ''/'' @ ''/'' @ lstrip e ''/''
          \<and> build_url (init b dh) e = rstrip b ''/'' @ ''/'' @ lstrip e ''/''
          \<and> build_url (set_base_url self (b @ replicate n CHR ''/''))
              (replicate m CHR ''/'' @ e) = build_url (set_base_url self b) e)
       \<and> (\<not> absolute \<and> base_url self = [] \<longrightarrow> build_url self e = e)"
proof -
  have variants: "build_url (set_base_url self (b @ replicate n CHR ''/''))
              (replicate m CHR ''/'' @ e) = build_url (set_base_url self b) e"
    if rel: "\<not> absolute" and "rstrip b ''/'' \<noteq> []"
  proof -
    from rel have "\<not> (startswith (replicate m CHR ''/'' @ e) ''http://''
            \<or> startswith (replicate m CHR ''/'' @ e) ''https://'')"
      unfolding absolute_def by (rule relative_with_slashes)
    with that show ?thesis
      unfolding absolute_def build_url_def set_base_url_def
      by (simp add: lstrip_replicate rstrip_replicate)
  qed
  have "rstrip [] ''/'' = []"
    by (simp add: rstrip_def)
  then have constructed: "base_url (init b dh) = rstrip b ''/''"
    by (cases "b = []") (simp_all add: init_def Let_def)
  show ?thesis
    using variants constructed by (simp add: build_url_def set_base_url_def absolute_def)
qed

theorem build_url_spec_witness:
  "build_url \<lparr>base_url = ''https://api.example.com'', client_headers = []\<rparr>
      ''https://other.example.org/x'' = ''https://other.example.org/x''
   \<and> build_url \<lparr>base_url = ''https://api.example.com'', client_headers = []\<rparr> ''posts/1''
        = ''https://api.example.com/posts/1''
   \<and> build_url (set_base_url \<lparr>base_url = [], client_headers = []\<rparr> ''https://api.example.com//'')
        ''//posts/1''
        = ''https://api.example.com/posts/1''
   \<and> build_url \<lparr>base_url = [], client_headers = []\<rparr> ''/posts/1'' = ''/posts/1''"
  using build_url_spec [where e = "''https://other.example.org/x''"
          and self = "\<lparr>base_url = ''https://api.example.com'', client_headers = []\<rparr>"]
        build_url_spec [where e = "''posts/1''"
          and self = "\<lparr>base_url = ''https://api.example.com'', client_headers = []\<rparr>"]
        build_url_spec [where e = "''posts/1''" and b = "''https://api.example.com''"
          and self = "\<lparr>base_url = [], client_headers = []\<rparr>" and n = 2 and m = 2]
        build_url_spec [where e = "''/posts/1''"
          and self = "\<lparr>base_url = [], client_headers = []\<rparr>"]
  by (simp add: startswith_def lstrip_def rstrip_def numeral_2_eq_2)

section \<open>The retry loop\<close>

lemma retry_returns:
  "fn k = (Inr v, evs) \<Longrightarrow> retry m w r fn k = (Inr v, evs)"
  by (subst retry.simps) simp

lemma retry_raises:
  "fn k = (Inl e, evs) \<Longrightarrow> \<not> r e \<Longrightarrow> retry m w r fn k = (Inl e, evs)"
  by (subst retry.simps) simp

lemma retry_gives_up:
  "fn k = (Inl e, evs) \<Longrightarrow> r e \<Longrightarrow> m \<le> k \<Longrightarrow> retry m w r fn k = (Inl (RetryError e), evs)"
  by (subst retry.simps) (simp add: stop_after_attempt_def)

lemma retry_again:
  "fn k = (Inl e, evs) \<Longrightarrow> r e \<Longrightarrow> k < m \<Longrightarrow>
     retry m w r fn k =
       (case retry m w r fn (k + 1) of (res, evs') \<Rightarrow> (res, evs @ [Sleep (w k)] @ evs'))"
  by (subst retry.simps) (simp add: stop_after_attempt_def)

lemma retry_on_RequestError:
  "retry_if_exception_type [is_RequestError, is_ReadTimeout] e \<longleftrightarrow> is_RequestError e"
  by (auto simp: retry_if_exception_type_def is_RequestError_def is_TransportError_def
        is_TimeoutException_def is_ReadTimeout_def)

lemma wait_values:
  "wait_exponential 1 2 10 1 = 2" "wait_exponential 1 2 10 2 = 2"
  by (simp_all add: wait_exponential_def)

lemma request_body_returns:
  "send (call_of self meth endpoint d p h t kw) = Inr r \<Longrightarrow>
     request_body self send meth endpoint d p h t kw
       = (Inr (result_of r),
          returned meth (build_url self endpoint) t (call_of self meth endpoint d p h t kw) r)"
  by (simp add: request_body_def call_of_def result_of_def returned_def Let_def)

lemma request_body_raises:
  "send (call_of self meth endpoint d p h t kw) = Inl e \<Longrightarrow>
     request_body self send meth endpoint d p h t kw
       = (Inl e,
          raised meth (build_url self endpoint) t (call_of self meth endpoint d p h t kw) e)"
  by (simp add: request_body_def call_of_def raised_def Let_def)

lemma request_step:
  fixes self tr meth endpoint d p h t kw
  defines "c \<equiv> call_of self meth endpoint d p h t kw"
    and "u \<equiv> build_url self endpoint"
    and "fn \<equiv> \<lambda>k. request_body self (tr k) meth endpoint d p h t kw"
    and "on \<equiv> retry_if_exception_type [is_RequestError, is_ReadTimeout]"
  assumes lt: "k < 3"
  shows "retry 3 w on fn k =
    (case tr k c of
       Inr r \<Rightarrow> (Inr (result_of r), returned meth u t c r)
     | Inl e \<Rightarrow>
        if \<not> is_RequestError e then (Inl e, raised meth u t c e)
        else (case retry 3 w on fn (k + 1) of
                (res, evs') \<Rightarrow> (res, raised meth u t c e @ [Sleep (w k)] @ evs')))"
proof (cases "tr k c")
  case (Inr r)
  then have "fn k = (Inr (result_of r), returned meth u t c r)"
    unfolding fn_def c_def u_def by (rule request_body_returns)
  then have "retry 3 w on fn k = (Inr (result_of r), returned meth u t c r)"
    by (rule retry_returns [of fn k])
  with Inr show ?thesis by simp
next
  case (Inl e)
  then have fnk: "fn k = (Inl e, raised meth u t c e)"
    unfolding fn_def c_def u_def by (rule request_body_raises)
  show ?thesis
  proof (cases "is_RequestError e")
    case True
    then have "on e" by (simp add: on_def retry_on_RequestError)
    from retry_again [of fn k e _ on 3 w, OF fnk this lt] Inl True show ?thesis by simp
  next
    case False
    then have "\<not> on e" by (simp add: on_def retry_on_RequestError)
    from retry_raises [of fn k e _ on 3 w, OF fnk this] Inl False show ?thesis by simp
  qed
qed

lemma request_last:
  fixes self tr meth endpoint d p h t kw
  defines "c \<equiv> call_of self meth endpoint d p h t kw"
    and "u \<equiv> build_url self endpoint"
    and "fn \<equiv> \<lambda>k. request_body self (tr k) meth endpoint d p h t kw"
    and "on \<equiv> retry_if_exception_type [is_RequestError, is_ReadTimeout]"
  shows "retry 3 w on fn 3 =
    (case tr 3 c of
       Inr r \<Rightarrow> (Inr (result_of r), returned meth u t c r)
     | Inl e \<Rightarrow> (if \<not> is_RequestError e then Inl e else Inl (RetryError e),
                  raised meth u t c e))"
proof (cases "tr 3 c")
  case (Inr r)
  then have "fn 3 = (Inr (result_of r), returned meth u t c r)"
    unfolding fn_def c_def u_def by (rule request_body_returns)
  then have "retry 3 w on fn 3 = (Inr (result_of r), returned meth u t c r)"
    by (rule retry_returns [of fn 3])
  with Inr show ?thesis by simp
next
  case (Inl e)
  then have fnk: "fn 3 = (Inl e, raised meth u t c e)"
    unfolding fn_def c_def u_def by (rule request_body_raises)
  show ?thesis
  proof (cases "is_RequestError e")
    case True
    then have "on e" by (simp add: on_def retry_on_RequestError)
    from retry_gives_up [of fn 3 e _ on 3 w, OF fnk this] Inl True show ?thesis by simp
  next
    case False
    then have "\<not> on e" by (simp add: on_def retry_on_RequestError)
    from retry_raises [of fn 3 e _ on 3 w, OF fnk this] Inl False show ?thesis by simp
  qed
qed

lemma request_unfold:
  fixes self tr meth endpoint d p h t kw
  defines "c \<equiv> call_of self meth endpoint d p h t kw"
    and "u \<equiv> build_url self endpoint"
  shows "request self tr meth endpoint d p h t kw =
    (case tr 1 c of
       Inr r \<Rightarrow> (Inr (result_of r), returned meth u t c r)
     | Inl e1 \<Rightarrow>
        if \<not> is_RequestError e1 then (Inl e1, raised meth u t c e1)
        else (case tr 2 c of
           Inr r \<Rightarrow> (Inr (result_of r), raised meth u t c e1 @ [Sleep 2] @ returned meth u t c r)
         | Inl e2 \<Rightarrow>
            if \<not> is_RequestError e2
            then (Inl e2, raised meth u t c e1 @ [Sleep 2] @ raised meth u t c e2)
            else (case tr 3 c of
               Inr r \<Rightarrow> (Inr (result_of r),
                  raised meth u t c e1 @ [Sleep 2] @ raised meth u t c e2 @ [Sleep 2]
                    @ returned meth u t c r)
             | Inl e3 \<Rightarrow>
                (if \<not> is_RequestError e3 then Inl e3 else Inl (RetryError e3),
                  raised meth u t c e1 @ [Sleep 2] @ raised meth u t c e2 @ [Sleep 2]
                    @ raised meth u t c e3))))"
proof -
  have lt: "(1::nat) < 3" "(2::nat) < 3" and suc: "(1::nat) + 1 = 2" "(2::nat) + 1 = 3"
    by simp_all
  show ?thesis
    unfolding request_def c_def u_def
    by (simp only: request_step [OF lt(1)] request_step [OF lt(2)] request_last suc wait_values)
       (simp split: sum.splits)
qed

lemma calls_append: "calls (xs @ ys) = calls xs @ calls ys"
  by (induction xs rule: calls.induct) simp_all

lemma sleeps_append: "sleeps (xs @ ys) = sleeps xs @ sleeps ys"
  by (induction xs rule: sleeps.induct) simp_all

lemma logged_errors_append: "logged_errors (xs @ ys) = logged_errors xs @ logged_errors ys"
  by (induction xs rule: logged_errors.induct) simp_all

lemma events_of_attempt:
  "calls (raised m u t c e) = [c]" "calls (returned m u t c r) = [c]"
  "sleeps (raised m u t c e) = []" "sleeps (returned m u t c r) = []"
  "logged_errors (raised m u t c e) = (if is_Exception e then [e] else [])"
  "logged_errors (returned m u t c r) = []"
  by (simp_all add: raised_def returned_def)

lemma RequestError_is_Exception: "is_RequestError e \<Longrightarrow> is_Exception e"
  by (auto simp: is_RequestError_def is_TransportError_def is_TimeoutException_def
        is_NetworkError_def is_Exception_def)

lemma NetworkError_is_RequestError: "is_NetworkError e \<Longrightarrow> is_RequestError e"
  by (simp add: is_RequestError_def is_TransportError_def)


lemma request_cases [case_names ok1 raise1 ok2 raise2 ok3 raise3 give_up]:
  fixes self tr meth endpoint d p h t kw
  defines "c \<equiv> call_of self meth endpoint d p h t kw"
    and "u \<equiv> build_url self endpoint"
    and "run \<equiv> request self tr meth endpoint d p h t kw"
  obtains r where "tr 1 c = Inr r" "run = (Inr (result_of r), returned meth u t c r)"
  | e1 where "tr 1 c = Inl e1" "\<not> is_RequestError e1" "run = (Inl e1, raised meth u t c e1)"
  | e1 r where "tr 1 c = Inl e1" "is_RequestError e1" "tr 2 c = Inr r"
      "run = (Inr (result_of r), raised meth u t c e1 @ [Sleep 2] @ returned meth u t c r)"
  | e1 e2 where "tr 1 c = Inl e1" "is_RequestError e1" "tr 2 c = Inl e2" "\<not> is_RequestError e2"
      "run = (Inl e2, raised meth u t c e1 @ [Sleep 2] @ raised meth u t c e2)"
  | e1 e2 r where "tr 1 c = Inl e1" "is_RequestError e1" "tr 2 c = Inl e2" "is_RequestError e2"
      "tr 3 c = Inr r"
      "run = (Inr (result_of r), raised meth u t c e1 @ [Sleep 2] @ raised meth u t c e2
                @ [Sleep 2] @ returned meth u t c r)"
  | e1 e2 e3 where "tr 1 c = Inl e1" "is_RequestError e1" "tr 2 c = Inl e2" "is_RequestError e2"
      "tr 3 c = Inl e3" "\<not> is_RequestError e3"
      "run = (Inl e3, raised meth u t c e1 @ [Sleep 2] @ raised meth u t c e2
                @ [Sleep 2] @ raised meth u t c e3)"
  | e1 e2 e3 where "tr 1 c = Inl e1" "is_RequestError e1" "tr 2 c = Inl e2" "is_RequestError e2"
      "tr 3 c = Inl e3" "is_RequestError e3"
      "run = (Inl (RetryError e3), raised meth u t c e1 @ [Sleep 2] @ raised meth u t c e2
                @ [Sleep 2] @ raised meth u t c e3)"
proof -
  note unfold = request_unfold [of self tr meth endpoint d p h t kw, folded c_def u_def run_def]
  show thesis
  proof (cases "tr 1 c")
    case (Inr r)
    with unfold that(1) show thesis by simp
  next
    case e1: (Inl e1)
    show thesis
    proof (cases "is_RequestError e1")
      case False
      with unfold e1 that(2) show thesis by simp
    next
      case r1: True
      show thesis
      proof (cases "tr 2 c")
        case (Inr r)
        with unfold e1 r1 that(3) show thesis by simp
      next
        case e2: (Inl e2)
        show thesis
        proof (cases "is_RequestError e2")
          case False
          with unfold e1 r1 e2 that(4) show thesis by simp
        next
          case r2: True
          show thesis
          proof (cases "tr 3 c")
            case (Inr r)
            with unfold e1 r1 e2 r2 that(5) show thesis by simp
          next
            case e3: (Inl e3)
            show thesis
            proof (cases "is_RequestError e3")
              case False
              with unfold e1 r1 e2 r2 e3 that(6) show thesis by simp
            next
              case True
              with unfold e1 r1 e2 r2 e3 that(7) show thesis by simp
            qed
          qed
        qed
      qed
    qed
  qed
qed

lemma request_result:
  "fst (request self tr meth endpoint d p h t kw) = Inr res \<Longrightarrow>
     \<exists>r k. k \<in> {1, 2, 3} \<and> tr k (call_of self meth endpoint d p h t kw) = Inr r
            \<and> res = result_of r"
  by (rule request_cases [where self = self and tr = tr and meth = meth and endpoint = endpoint
        and d = d and p = p and h = h and t = t and kw = kw]) auto

lemma request_error:
  "fst (request self tr meth endpoint d p h t kw) = Inl ex \<Longrightarrow>
     \<exists>k \<in> {1, 2, 3}. tr k (call_of self meth endpoint d p h t kw) = Inl ex
       \<or> (\<exists>e. ex = RetryError e \<and> tr k (call_of self meth endpoint d p h t kw) = Inl e)"
  by (rule request_cases [where self = self and tr = tr and meth = meth and endpoint = endpoint
        and d = d and p = p and h = h and t = t and kw = kw]) auto

lemma request_calls:
  "calls (snd (request self tr meth endpoint d p h t kw)) \<noteq> []"
  "x \<in> set (calls (snd (request self tr meth endpoint d p h t kw))) \<Longrightarrow>
     x = call_of self meth endpoint d p h t kw"
  by (rule request_cases [where self = self and tr = tr and meth = meth and endpoint = endpoint
        and d = d and p = p and h = h and t = t and kw = kw];
      auto simp: calls_append events_of_attempt)+

lemma response_data_cases:
  "startswith (headers_get (resp_headers r) ''content-type'' []) ''application/json''
     \<Longrightarrow> resp_json r = Inr v \<Longrightarrow> response_data r = v"
  "\<not> startswith (headers_get (resp_headers r) ''content-type'' []) ''application/json''
     \<Longrightarrow> response_data r = PStr (resp_text r)"
  "resp_json r = Inl x \<Longrightarrow> response_data r = PStr (resp_text r)"
  by (simp_all add: response_data_def)

lemma result_of_fields:
  "status (result_of r) = status_code r" "ok (result_of r) = is_success r"
  "data (result_of r) = response_data r" "text (result_of r) = resp_text r"
  "response (result_of r) = r"
  by (simp_all add: result_of_def)


section \<open>Retries\<close>

text \<open>
  Claim C1, as the code has it.  When the first two attempts raise a connection error and
  the third returns a response, \<open>request\<close> returns that response's result after exactly
  three attempts, with pauses of 2 seconds and then 2 seconds: after attempt \<open>k\<close> the
  pause is \<open>2 ** (k - 1)\<close> seconds, raised to the minimum of 2 and capped at 10, so
  the sequence of pauses the policy yields is 2, 2, 4, 8, 10, 10.  When all three
  attempts raise a connection error, \<open>request\<close> raises after exactly three attempts.
\<close>

theorem request_retry_backoff:
  fixes self tr meth endpoint d p h t kw
  defines "c \<equiv> call_of self meth endpoint d p h t kw"
    and "run \<equiv> request self tr meth endpoint d p h t kw"
  shows "(is_NetworkError e1 \<and> is_NetworkError e2
            \<and> tr 1 c = Inl e1 \<and> tr 2 c = Inl e2 \<and> tr 3 c = Inr r \<longrightarrow>
          fst run = Inr (result_of r) \<and> attempts (snd run) = 3 \<and> sleeps (snd run) = [2, 2])
       \<and> (is_NetworkError e1 \<and> is_NetworkError e2 \<and> is_NetworkError e3
            \<and> tr 1 c = Inl e1 \<and> tr 2 c = Inl e2 \<and> tr 3 c = Inl e3 \<longrightarrow>
          (\<exists>ex. fst run = Inl ex) \<and> attempts (snd run) = 3 \<and> sleeps (snd run) = [2, 2])
       \<and> map (wait_exponential 1 2 10) [1, 2, 3, 4, 5, 6] = [2, 2, 4, 8, 10, 10]"
  unfolding run_def c_def
  by (simp add: request_unfold NetworkError_is_RequestError attempts_def calls_append
        sleeps_append events_of_attempt wait_exponential_def)

theorem request_retry_backoff_witness:
  "fst (request demo_client flaky_transport ''GET'' ''posts/1'' PNone PNone None 30 [])
     = Inr (result_of demo_response)
   \<and> attempts (snd (request demo_client flaky_transport ''GET'' ''posts/1'' PNone PNone None 30 [])) = 3
   \<and> sleeps (snd (request demo_client flaky_transport ''GET'' ''posts/1'' PNone PNone None 30 [])) = [2, 2]
   \<and> attempts (snd (request demo_client (failing_transport ConnectError) ''GET'' ''posts/1''
         PNone PNone None 30 [])) = 3"
  using request_retry_backoff [where ?e1.0 = ConnectError and ?e2.0 = ConnectError
          and tr = flaky_transport and r = demo_response and self = demo_client
          and meth = "''GET''" and endpoint = "''posts/1''" and d = PNone and p = PNone
          and h = None and t = 30 and kw = "[]"]
        request_retry_backoff [where ?e1.0 = ConnectError and ?e2.0 = ConnectError
          and ?e3.0 = ConnectError
          and tr = "failing_transport ConnectError" and self = demo_client
          and meth = "''GET''" and endpoint = "''posts/1''" and d = PNone and p = PNone
          and h = None and t = 30 and kw = "[]"]
  by (simp add: flaky_transport_def failing_transport_def is_NetworkError_def)

text \<open>
  Claim C1 as stated fails.  The pauses are not 2 seconds then 4 seconds: with a session
  that raises \<open>ConnectError\<close> twice and then answers, the pauses differ from
  \<open>[2, 4]\<close>.
\<close>

theorem request_backoff_2_then_4_counterexample:
  "flaky_transport 1 (call_of demo_client ''GET'' ''posts/1'' PNone PNone None 30 [])
      = Inl ConnectError
   \<and> flaky_transport 2 (call_of demo_client ''GET'' ''posts/1'' PNone PNone None 30 [])
      = Inl ConnectError
   \<and> flaky_transport 3 (call_of demo_client ''GET'' ''posts/1'' PNone PNone None 30 [])
      = Inr demo_response
   \<and> sleeps (snd (request demo_client flaky_transport ''GET'' ''posts/1'' PNone PNone None 30 []))
      \<noteq> [2, 4]"
  by (simp add: request_unfold flaky_transport_def is_RequestError_def is_TransportError_def
        is_NetworkError_def sleeps_append events_of_attempt)

text \<open>
  Claim C2, as the code has it.  When all three attempts raise a retried exception, what
  reaches the caller is \<open>RetryError\<close> holding the exception of the last attempt; each
  of the three exceptions has been logged by \<open>request\<close>.
\<close>

theorem request_exhausted_raises_RetryError:
  fixes self tr meth endpoint d p h t kw
  defines "c \<equiv> call_of self meth endpoint d p h t kw"
    and "run \<equiv> request self tr meth endpoint d p h t kw"
  shows "is_RequestError e1 \<and> is_RequestError e2 \<and> is_RequestError e3
           \<and> tr 1 c = Inl e1 \<and> tr 2 c = Inl e2 \<and> tr 3 c = Inl e3 \<longrightarrow>
         fst run = Inl (RetryError e3) \<and> logged_errors (snd run) = [e1, e2, e3]
           \<and> attempts (snd run) = 3"
  unfolding run_def c_def
  by (simp add: request_unfold attempts_def calls_append logged_errors_append events_of_attempt
        RequestError_is_Exception)

theorem request_exhausted_raises_RetryError_witness:
  "fst (request demo_client (failing_transport ReadTimeout) ''GET'' ''posts/1''
         PNone PNone None 30 []) = Inl (RetryError ReadTimeout)
   \<and> logged_errors (snd (request demo_client (failing_transport ReadTimeout) ''GET'' ''posts/1''
         PNone PNone None 30 [])) = [ReadTimeout, ReadTimeout, ReadTimeout]"
  using request_exhausted_raises_RetryError [where ?e1.0 = ReadTimeout and ?e2.0 = ReadTimeout
          and ?e3.0 = ReadTimeout
          and tr = "failing_transport ReadTimeout" and self = demo_client
          and meth = "''GET''" and endpoint = "''posts/1''" and d = PNone and p = PNone
          and h = None and t = 30 and kw = "[]"]
  by (simp add: failing_transport_def is_RequestError_def is_TransportError_def
        is_TimeoutException_def)

text \<open>
  Claim C2 as stated fails.  What reaches the caller is not the session's own exception:
  with a session that always raises \<open>ConnectError\<close>, \<open>request\<close> does not raise
  \<open>ConnectError\<close>.
\<close>

theorem request_final_exception_counterexample:
  "is_RequestError ConnectError
   \<and> failing_transport ConnectError 1
        (call_of demo_client ''GET'' ''posts/1'' PNone PNone None 30 []) = Inl ConnectError
   \<and> failing_transport ConnectError 2
        (call_of demo_client ''GET'' ''posts/1'' PNone PNone None 30 []) = Inl ConnectError
   \<and> failing_transport ConnectError 3
        (call_of demo_client ''GET'' ''posts/1'' PNone PNone None 30 []) = Inl ConnectError
   \<and> fst (request demo_client (failing_transport ConnectError) ''GET'' ''posts/1''
         PNone PNone None 30 []) \<noteq> Inl ConnectError"
  by (simp add: request_unfold failing_transport_def is_RequestError_def is_TransportError_def
        is_NetworkError_def)

text \<open>
  Claim C3, as the code has it.  An exception that is not an instance of
  \<open>RequestError\<close> (such as \<open>InvalidURL\<close>, or any exception of another library)
  reaches the caller from the first attempt, with no retry and no pause.  Every instance
  of \<open>RequestError\<close> is retried; the network errors and the read timeout are among
  them.
\<close>

theorem request_retries_RequestError_only:
  fixes self tr meth endpoint d p h t kw
  defines "c \<equiv> call_of self meth endpoint d p h t kw"
    and "run \<equiv> request self tr meth endpoint d p h t kw"
  shows "(\<not> is_RequestError ex \<and> tr 1 c = Inl ex \<longrightarrow>
            fst run = Inl ex \<and> attempts (snd run) = 1 \<and> sleeps (snd run) = [])
       \<and> (is_RequestError ex \<and> tr 1 c = Inl ex \<longrightarrow>
            2 \<le> attempts (snd run) \<and> sleeps (snd run) \<noteq> [])
       \<and> (is_NetworkError ex \<or> is_ReadTimeout ex \<longrightarrow> is_RequestError ex)
       \<and> \<not> is_RequestError InvalidURL \<and> \<not> is_RequestError (OtherException n)"
  unfolding run_def c_def
  by (auto simp add: request_unfold attempts_def calls_append sleeps_append events_of_attempt
        NetworkError_is_RequestError is_ReadTimeout_def
        is_RequestError_def [of ReadTimeout] is_RequestError_def [of InvalidURL]
        is_RequestError_def [of "OtherException n"] is_TransportError_def
        is_TimeoutException_def is_NetworkError_def split: sum.splits)

theorem request_retries_RequestError_only_witness:
  "fst (request demo_client (failing_transport InvalidURL) ''GET'' ''posts/1''
         PNone PNone None 30 []) = Inl InvalidURL
   \<and> attempts (snd (request demo_client (failing_transport InvalidURL) ''GET'' ''posts/1''
         PNone PNone None 30 [])) = 1
   \<and> 2 \<le> attempts (snd (request demo_client (failing_transport TooManyRedirects) ''GET''
         ''posts/1'' PNone PNone None 30 []))
   \<and> is_RequestError ConnectError"
  using request_retries_RequestError_only [where ex = InvalidURL
          and tr = "failing_transport InvalidURL" and self = demo_client
          and meth = "''GET''" and endpoint = "''posts/1''" and d = PNone and p = PNone
          and h = None and t = 30 and kw = "[]"]
        request_retries_RequestError_only [where ex = TooManyRedirects
          and tr = "failing_transport TooManyRedirects" and self = demo_client
          and meth = "''GET''" and endpoint = "''posts/1''" and d = PNone and p = PNone
          and h = None and t = 30 and kw = "[]"]
        request_retries_RequestError_only [where ex = ConnectError]
  by (simp add: failing_transport_def is_RequestError_def is_TransportError_def
        is_TimeoutException_def is_NetworkError_def)

text \<open>
  Claim C3 as stated fails.  An exception that is neither a network error nor a timeout
  is retried all the same: \<open>UnsupportedProtocol\<close>, which the session raises for a URL
  without a scheme, leads to three attempts and does not reach the caller as it is.
\<close>

theorem request_retries_unsupported_protocol_counterexample:
  "\<not> is_NetworkError UnsupportedProtocol \<and> \<not> is_TimeoutException UnsupportedProtocol
   \<and> failing_transport UnsupportedProtocol 1
        (call_of (init [] None) ''GET'' ''health'' PNone PNone None 30 []) = Inl UnsupportedProtocol
   \<and> attempts (snd (request (init [] None) (failing_transport UnsupportedProtocol) ''GET''
         ''health'' PNone PNone None 30 [])) = 3
   \<and> fst (request (init [] None) (failing_transport UnsupportedProtocol) ''GET''
         ''health'' PNone PNone None 30 []) \<noteq> Inl UnsupportedProtocol"
  by (simp add: request_unfold failing_transport_def is_RequestError_def is_TransportError_def
        is_NetworkError_def is_TimeoutException_def attempts_def calls_append events_of_attempt)

section \<open>Responses\<close>

text \<open>
  Claim C5.  A result returned by \<open>request\<close> is built from a response the session
  returned at one of the attempts.  If that response's content type begins with
  \<open>application/json\<close> and \<open>json()\<close> decodes the body, \<open>data\<close> is the decoded value;
  with any other content type, or when \<open>json()\<close> raises, \<open>data\<close> is the response
  text.  Decoding raises nothing to the caller: an exception that leaves \<open>request\<close> was
  raised by the session at one of the attempts (or is the \<open>RetryError\<close> holding it),
  and a response at the first attempt always gives a result.
\<close>

theorem response_body_parsing:
  fixes self tr meth endpoint d p h t kw
  defines "c \<equiv> call_of self meth endpoint d p h t kw"
    and "run \<equiv> request self tr meth endpoint d p h t kw"
  shows "(fst run = Inr res \<longrightarrow>
            (\<exists>k \<in> {1, 2, 3}. tr k c = Inr (response res))
          \<and> text res = resp_text (response res)
          \<and> (startswith (headers_get (resp_headers (response res)) ''content-type'' [])
                ''application/json''
              \<and> resp_json (response res) = Inr v \<longrightarrow> data res = v)
          \<and> (\<not> startswith (headers_get (resp_headers (response res)) ''content-type'' [])
                  ''application/json''
              \<longrightarrow> data res = PStr (text res))
          \<and> (resp_json (response res) = Inl x \<longrightarrow> data res = PStr (text res)))
       \<and> (fst run = Inl ex \<longrightarrow>
            (\<exists>k \<in> {1, 2, 3}. tr k c = Inl ex \<or> (\<exists>e. ex = RetryError e \<and> tr k c = Inl e)))
       \<and> (tr 1 c = Inr r \<longrightarrow> fst run = Inr (result_of r))"
proof (intro conjI impI)
  assume "fst run = Inl ex"
  then show "\<exists>k \<in> {1, 2, 3}. tr k c = Inl ex \<or> (\<exists>e. ex = RetryError e \<and> tr k c = Inl e)"
    unfolding run_def c_def by (rule request_error)
next
  assume "tr 1 c = Inr r"
  then show "fst run = Inr (result_of r)"
    unfolding run_def c_def by (subst request_unfold) simp
next
  assume "fst run = Inr res"
  then have "\<exists>r' k. k \<in> {1, 2, 3} \<and> tr k c = Inr r' \<and> res = result_of r'"
    unfolding run_def c_def by (rule request_result)
  then obtain r' k where k: "k \<in> {1, 2, 3}" "tr k c = Inr r'" and res: "res = result_of r'"
    by (elim exE conjE)
  from k have "\<exists>k \<in> {1, 2, 3}. tr k c = Inr r'"
    by (rule bexI [rotated])
  then show "\<exists>k \<in> {1, 2, 3}. tr k c = Inr (response res)"
    unfolding res result_of_fields .
  show "text res = resp_text (response res)"
    unfolding res result_of_fields by (rule refl)
  {
    assume "startswith (headers_get (resp_headers (response res)) ''content-type'' [])
                ''application/json'' \<and> resp_json (response res) = Inr v"
    then show "data res = v"
      unfolding res result_of_fields by (simp add: response_data_cases)
  }
  {
    assume "\<not> startswith (headers_get (resp_headers (response res)) ''content-type'' [])
                  ''application/json''"
    then show "data res = PStr (text res)"
      unfolding res result_of_fields by (simp add: response_data_cases)
  }
  {
    assume "resp_json (response res) = Inl x"
    then show "data res = PStr (text res)"
      unfolding res result_of_fields by (simp add: response_data_cases)
  }
qed


theorem response_body_parsing_witness:
  "data (result_of demo_response) = PList [PInt 1, PInt 2]
   \<and> fst (request demo_client (steady_transport demo_response) ''GET'' ''posts/1''
          PNone PNone None 30 []) = Inr (result_of demo_response)
   \<and> data (result_of (demo_response\<lparr>resp_json := Inl JSONDecodeError\<rparr>))
       = PStr ''[1, 2]''
   \<and> data (result_of (demo_response\<lparr>resp_headers := [(''Content-Type'', ''text/html'')]\<rparr>))
       = PStr ''[1, 2]''"
proof -
  have run: "fst (request demo_client (steady_transport r) ''GET'' ''posts/1''
          PNone PNone None 30 []) = Inr (result_of r)" for r
    using response_body_parsing [where tr = "steady_transport r" and r = r
        and self = demo_client and meth = "''GET''" and endpoint = "''posts/1''"
        and d = PNone and p = PNone and h = None and t = 30 and kw = "[]"]
    by (simp add: steady_transport_def)
  have ct: "startswith (headers_get (resp_headers demo_response) ''content-type'' [])
               ''application/json''"
    by (simp add: demo_response_def headers_get_def lower_def lower_char_def startswith_def)
  have nct: "\<not> startswith (headers_get [(''Content-Type'', ''text/html'')] ''content-type'' [])
               ''application/json''"
    by (simp add: headers_get_def lower_def lower_char_def startswith_def)
  have a: "data (result_of demo_response) = PList [PInt 1, PInt 2]"
    using response_body_parsing [where tr = "steady_transport demo_response"
        and res = "result_of demo_response" and v = "PList [PInt 1, PInt 2]"
        and self = demo_client and meth = "''GET''" and endpoint = "''posts/1''"
        and d = PNone and p = PNone and h = None and t = 30 and kw = "[]"] run ct
    by (simp add: result_of_fields) (simp add: demo_response_def)
  have b: "data (result_of (demo_response\<lparr>resp_json := Inl JSONDecodeError\<rparr>))
       = PStr ''[1, 2]''"
    using response_body_parsing [where
        tr = "steady_transport (demo_response\<lparr>resp_json := Inl JSONDecodeError\<rparr>)"
        and res = "result_of (demo_response\<lparr>resp_json := Inl JSONDecodeError\<rparr>)"
        and x = JSONDecodeError
        and self = demo_client and meth = "''GET''" and endpoint = "''posts/1''"
        and d = PNone and p = PNone and h = None and t = 30 and kw = "[]"] run
    by (simp add: result_of_fields) (simp add: demo_response_def)
  have c: "data (result_of (demo_response\<lparr>resp_headers := [(''Content-Type'', ''text/html'')]\<rparr>))
       = PStr ''[1, 2]''"
    using response_body_parsing [where
        tr = "steady_transport (demo_response\<lparr>resp_headers := [(''Content-Type'', ''text/html'')]\<rparr>)"
        and res = "result_of (demo_response\<lparr>resp_headers := [(''Content-Type'', ''text/html'')]\<rparr>)"
        and self = demo_client and meth = "''GET''" and endpoint = "''posts/1''"
        and d = PNone and p = PNone and h = None and t = 30 and kw = "[]"] run nct
    by (simp add: result_of_fields) (simp add: demo_response_def)
  from a b c run [of demo_response] show ?thesis by simp
qed

text \<open>
  Claim C8.  In a result returned by \<open>request\<close>, \<open>ok\<close> holds exactly when the status
  is between 200 and 299.  A response with a 4xx or 5xx status is returned as a result
  with \<open>ok\<close> false, after a single attempt, and is not raised.
\<close>

theorem ok_flag:
  fixes self tr meth endpoint d p h t kw
  defines "c \<equiv> call_of self meth endpoint d p h t kw"
    and "run \<equiv> request self tr meth endpoint d p h t kw"
  shows "(fst run = Inr res \<longrightarrow>
            (ok res \<longleftrightarrow> 200 \<le> status res \<and> status res \<le> 299)
          \<and> status res = status_code (response res))
       \<and> (tr 1 c = Inr r \<and> 400 \<le> status_code r \<and> status_code r \<le> 599 \<longrightarrow>
            fst run = Inr (result_of r) \<and> attempts (snd run) = 1
          \<and> status (result_of r) = status_code r \<and> \<not> ok (result_of r))"
proof (intro conjI impI)
  assume "fst run = Inr res"
  then have "\<exists>r' k. k \<in> {1, 2, 3} \<and> tr k c = Inr r' \<and> res = result_of r'"
    unfolding run_def c_def by (rule request_result)
  then obtain r' where res: "res = result_of r'"
    by (elim exE conjE)
  show "ok res \<longleftrightarrow> 200 \<le> status res \<and> status res \<le> 299"
    unfolding res result_of_fields by (simp add: is_success_def)
  show "status res = status_code (response res)"
    unfolding res result_of_fields by (rule refl)
next
  assume a: "tr 1 c = Inr r \<and> 400 \<le> status_code r \<and> status_code r \<le> 599"
  then have run1: "run = (Inr (result_of r), returned meth (build_url self endpoint) t c r)"
    unfolding run_def c_def by (subst request_unfold) simp
  from run1 show "fst run = Inr (result_of r)" by simp
  from run1 show "attempts (snd run) = 1" by (simp add: attempts_def events_of_attempt)
  show "status (result_of r) = status_code r" by (simp add: result_of_fields)
  from a show "\<not> ok (result_of r)" by (simp add: result_of_fields is_success_def)
qed

theorem ok_flag_witness:
  "fst (request demo_client (steady_transport (demo_response\<lparr>status_code := 404\<rparr>)) ''GET''
         ''posts/1'' PNone PNone None 30 []) = Inr (result_of (demo_response\<lparr>status_code := 404\<rparr>))
   \<and> \<not> ok (result_of (demo_response\<lparr>status_code := 404\<rparr>))
   \<and> status (result_of (demo_response\<lparr>status_code := 404\<rparr>)) = 404
   \<and> ok (result_of demo_response)"
proof -
  have run: "fst (request demo_client (steady_transport demo_response) ''GET'' ''posts/1''
          PNone PNone None 30 []) = Inr (result_of demo_response)"
    by (subst request_unfold) (simp add: steady_transport_def)
  have "ok (result_of demo_response)"
    using ok_flag [where tr = "steady_transport demo_response" and res = "result_of demo_response"
        and self = demo_client and meth = "''GET''" and endpoint = "''posts/1''"
        and d = PNone and p = PNone and h = None and t = 30 and kw = "[]"] run
    by (simp add: result_of_fields) (simp add: demo_response_def)
  then show ?thesis
    using ok_flag [where tr = "steady_transport (demo_response\<lparr>status_code := 404\<rparr>)"
        and r = "demo_response\<lparr>status_code := 404\<rparr>"
        and self = demo_client and meth = "''GET''" and endpoint = "''posts/1''"
        and d = PNone and p = PNone and h = None and t = 30 and kw = "[]"]
    by (simp add: steady_transport_def)
qed

section \<open>The base URL\<close>

lemma not_startswith_dropWhile:
  "\<not> startswith (dropWhile (\<lambda>c. c \<in> set ''/'') xs) ''/''"
proof (cases "dropWhile (\<lambda>c. c \<in> set ''/'') xs")
  case Nil
  show ?thesis unfolding Nil by (simp add: startswith_def)
next
  case (Cons y ys)
  then have "hd (dropWhile (\<lambda>c. c \<in> set ''/'') xs) \<noteq> CHR ''/''"
    using hd_dropWhile [of "\<lambda>c. c \<in> set ''/''" xs] by auto
  with Cons show ?thesis by (simp add: startswith_def)
qed

lemma lstrip_not_startswith: "\<not> startswith (lstrip e ''/'') ''/''"
  unfolding lstrip_def by (rule not_startswith_dropWhile)

lemma rstrip_not_endswith: "\<not> endswith (rstrip b ''/'') ''/''"
  unfolding rstrip_def endswith_def using not_startswith_dropWhile [of "rev b"] by simp

lemma init_base_url: "\<not> endswith (base_url (init b dh)) ''/''"
  using rstrip_not_endswith [of b]
  by (simp add: init_def Let_def endswith_def startswith_def)

lemma apply_op_base_url:
  "\<not> endswith (base_url self) ''/'' \<Longrightarrow> \<not> endswith (base_url (apply_op self op)) ''/''"
  by (cases op) (simp_all add: set_base_url_def set_auth_token_def rstrip_not_endswith)

lemma foldl_apply_op_base_url:
  "\<not> endswith (base_url self) ''/'' \<Longrightarrow> \<not> endswith (base_url (foldl apply_op self ops)) ''/''"
  by (induction ops arbitrary: self) (simp_all add: apply_op_base_url)

text \<open>
  Claim C10.  After construction and any sequence of \<open>set_base_url\<close> and
  \<open>set_auth_token\<close> calls, the stored base URL does not end with a slash (it is empty or
  has its trailing slashes stripped).  So a relative endpoint joined to a base URL gives
  the base URL, one slash, and a remainder that does not begin with a slash.
\<close>

theorem base_url_invariant:
  fixes b dh ops e
  defines "self \<equiv> foldl apply_op (init b dh) ops"
  shows "\<not> endswith (base_url self) ''/''
       \<and> (\<not> (startswith e ''http://'' \<or> startswith e ''https://'') \<and> base_url self \<noteq> [] \<longrightarrow>
            build_url self e = base_url self @ ''/'' @ lstrip e ''/''
          \<and> \<not> startswith (lstrip e ''/'') ''/'')"
proof -
  have "\<not> endswith (base_url self) ''/''"
    unfolding self_def by (rule foldl_apply_op_base_url) (rule init_base_url)
  then show ?thesis
    by (simp add: build_url_def lstrip_not_startswith)
qed

theorem base_url_invariant_witness:
  "\<not> endswith (base_url (foldl apply_op (init ''https://api.example.com//'' None)
        [Set_auth_token ''abc'', Set_base_url ''http://localhost:3000/''])) ''/''
   \<and> build_url (foldl apply_op (init ''https://api.example.com//'' None)
        [Set_auth_token ''abc'', Set_base_url ''http://localhost:3000/'']) ''//posts/1''
       = ''http://localhost:3000/posts/1''"
proof -
  have b: "base_url (foldl apply_op (init ''https://api.example.com//'' None)
        [Set_auth_token ''abc'', Set_base_url ''http://localhost:3000/'']) = ''http://localhost:3000''"
    by (simp add: set_base_url_def rstrip_def)
  show ?thesis
    using base_url_invariant [where e = "''//posts/1''" and b = "''https://api.example.com//''"
        and dh = None
        and ops = "[Set_auth_token ''abc'', Set_base_url ''http://localhost:3000/'']"]
    unfolding b by (simp add: startswith_def lstrip_def)
qed

section \<open>The health check\<close>

lemma health_check_unfold:
  "health_check self tr =
     (case fst (get self tr ''health'' PNone PNone None 5 []) of
        Inr res \<Rightarrow> Inr (status res = 200)
      | Inl e \<Rightarrow> if is_Exception e then Inr False else Inl e,
      snd (get self tr ''health'' PNone PNone None 5 []))"
  by (cases "get self tr ''health'' PNone PNone None 5 []")
     (simp add: health_check_def split: sum.splits)

lemma upper_GET: "upper ''GET'' = ''GET''"
  by (simp add: upper_def upper_char_def)

lemma health_kwargs:
  "request_kwargs PNone PNone None 5 [] = [(''params'', Params PNone), (''timeout'', Timeout 5)]"
  by (simp add: request_kwargs_def dict_update_def)

text \<open>
  Claim C6, as the code has it.  \<open>health_check\<close> issues a \<open>GET\<close> for the relative endpoint
  \<open>health\<close> with a timeout of 5 seconds and no other argument.  It returns true exactly
  when that request returns a result whose status is 200, and the truth value of that
  test whenever a result is returned.  When the request raises an instance of
  \<open>Exception\<close> (a timeout, or the \<open>RetryError\<close> after three of them) it returns false.
  When the request raises anything else it raises the same: what \<open>health_check\<close> raises
  is what the request raised and is never an instance of \<open>Exception\<close>.
\<close>

theorem health_check_spec:
  fixes self tr
  defines "probe \<equiv> get self tr ''health'' PNone PNone None 5 []"
  shows "(fst (health_check self tr) = Inr True
            \<longleftrightarrow> (\<exists>res. fst probe = Inr res \<and> status res = 200))
       \<and> (fst probe = Inr res \<longrightarrow> fst (health_check self tr) = Inr (status res = 200))
       \<and> (fst probe = Inl ex \<and> is_Exception ex \<longrightarrow> fst (health_check self tr) = Inr False)
       \<and> (fst probe = Inl ex \<and> \<not> is_Exception ex \<longrightarrow> fst (health_check self tr) = Inl ex)
       \<and> (fst (health_check self tr) = Inl ex \<longrightarrow>
            \<not> is_Exception ex \<and> fst probe = Inl ex)
       \<and> snd (health_check self tr) = snd probe
       \<and> calls (snd probe) \<noteq> []
       \<and> (\<forall>c \<in> set (calls (snd probe)).
            call_method c = ''GET'' \<and> call_url c = build_url self ''health''
            \<and> call_kwargs c = [(''params'', Params PNone), (''timeout'', Timeout 5)])
       \<and> (base_url self \<noteq> [] \<longrightarrow> build_url self ''health'' = base_url self @ ''/health'')"
proof (intro conjI impI ballI)
  show "fst (health_check self tr) = Inr True
          \<longleftrightarrow> (\<exists>res. fst probe = Inr res \<and> status res = 200)"
    unfolding probe_def health_check_unfold
    by (cases "fst (get self tr ''health'' PNone PNone None 5 [])") simp_all
  show "fst (health_check self tr) = Inr (status res = 200)" if "fst probe = Inr res"
    using that unfolding probe_def health_check_unfold by simp
  show "fst (health_check self tr) = Inr False" if "fst probe = Inl ex \<and> is_Exception ex"
    using that unfolding probe_def health_check_unfold by simp
  show "fst (health_check self tr) = Inl ex" if "fst probe = Inl ex \<and> \<not> is_Exception ex"
    using that unfolding probe_def health_check_unfold by simp
  show "snd (health_check self tr) = snd probe"
    unfolding probe_def health_check_unfold by simp
  show "calls (snd probe) \<noteq> []"
    unfolding probe_def get_def by (rule request_calls(1))
  show "build_url self ''health'' = base_url self @ ''/health''" if "base_url self \<noteq> []"
    using that by (simp add: build_url_def startswith_def lstrip_def)
next
  assume raises: "fst (health_check self tr) = Inl ex"
  then show "\<not> is_Exception ex" and "fst probe = Inl ex"
    unfolding probe_def health_check_unfold
    by (cases "fst (get self tr ''health'' PNone PNone None 5 [])"; simp split: if_splits)+
next
  fix c assume "c \<in> set (calls (snd probe))"
  then have c: "c = call_of self ''GET'' ''health'' PNone PNone None 5 []"
    unfolding probe_def get_def by (rule request_calls(2))
  show "call_method c = ''GET''"
    unfolding c by (simp add: call_of_def upper_GET)
  show "call_url c = build_url self ''health''"
    unfolding c by (simp add: call_of_def)
  show "call_kwargs c = [(''params'', Params PNone), (''timeout'', Timeout 5)]"
    unfolding c by (simp add: call_of_def health_kwargs)
qed

theorem health_check_spec_witness:
  "fst (health_check demo_client (steady_transport demo_response)) = Inr True
   \<and> fst (health_check demo_client (steady_transport (demo_response\<lparr>status_code := 204\<rparr>)))
       = Inr False
   \<and> fst (health_check demo_client (failing_transport ReadTimeout)) = Inr False
   \<and> fst (health_check demo_client (failing_transport KeyboardInterrupt)) = Inl KeyboardInterrupt
   \<and> build_url demo_client ''health'' = ''https://api.staging.example.com/health''"
proof -
  have ok: "fst (get demo_client (steady_transport r) ''health'' PNone PNone None 5 [])
              = Inr (result_of r)" for r
    unfolding get_def by (subst request_unfold) (simp add: steady_transport_def)
  have bad: "fst (get demo_client (failing_transport ReadTimeout) ''health'' PNone PNone None 5 [])
              = Inl (RetryError ReadTimeout)"
    unfolding get_def
    by (subst request_unfold)
       (simp add: failing_transport_def is_RequestError_def is_TransportError_def
          is_TimeoutException_def)
  have stop: "fst (get demo_client (failing_transport KeyboardInterrupt) ''health''
                  PNone PNone None 5 []) = Inl KeyboardInterrupt"
    unfolding get_def
    by (subst request_unfold)
       (simp add: failing_transport_def is_RequestError_def is_TransportError_def
          is_TimeoutException_def is_NetworkError_def)
  have base: "base_url demo_client = ''https://api.staging.example.com''"
    by (simp add: demo_client_def init_def rstrip_def)
  have "fst (health_check demo_client (steady_transport demo_response)) = Inr True"
    using health_check_spec [of demo_client "steady_transport demo_response"] ok
    by (simp add: result_of_fields demo_response_def)
  moreover have "fst (health_check demo_client
                     (steady_transport (demo_response\<lparr>status_code := 204\<rparr>))) = Inr False"
    using health_check_spec [of demo_client "steady_transport (demo_response\<lparr>status_code := 204\<rparr>)"
        "result_of (demo_response\<lparr>status_code := 204\<rparr>)"] ok
    by (simp add: result_of_fields)
  moreover have "fst (health_check demo_client (failing_transport ReadTimeout)) = Inr False"
    using health_check_spec [of demo_client "failing_transport ReadTimeout" _
        "RetryError ReadTimeout"] bad
    by (simp add: is_Exception_def)
  moreover have "fst (health_check demo_client (failing_transport KeyboardInterrupt))
                   = Inl KeyboardInterrupt"
    using health_check_spec [of demo_client "failing_transport KeyboardInterrupt" _
        KeyboardInterrupt] stop
    by (simp add: is_Exception_def)
  moreover have "build_url demo_client ''health'' = ''https://api.staging.example.com/health''"
    using health_check_spec [of demo_client "steady_transport demo_response"] base
    by simp
  ultimately show ?thesis by simp
qed

text \<open>
  Claim C6 as stated fails.  \<open>health_check\<close> can raise: when the task is cancelled while
  the session is awaited, the session raises \<open>CancelledError\<close>, which is not an instance
  of \<open>Exception\<close>, and \<open>health_check\<close> raises it.
\<close>

theorem health_check_cancelled_counterexample:
  "failing_transport CancelledError 1
      (call_of demo_client ''GET'' ''health'' PNone PNone None 5 []) = Inl CancelledError
   \<and> fst (health_check demo_client (failing_transport CancelledError)) = Inl CancelledError"
proof -
  have "fst (get demo_client (failing_transport CancelledError) ''health''
                  PNone PNone None 5 []) = Inl CancelledError"
    unfolding get_def
    by (subst request_unfold)
       (simp add: failing_transport_def is_RequestError_def is_TransportError_def
          is_TimeoutException_def is_NetworkError_def)
  then show ?thesis
    by (simp add: health_check_unfold is_Exception_def failing_transport_def)
qed

section \<open>Request bodies\<close>











section \<open>The authorization header\<close>
















end
